theory Spec2Isabelle
  imports Complex_Main "HOL-Library.Monad_Syntax"
begin

section \<open>MaxSec: risk scoring and policy enforcement\<close>

text \<open>
  A shallow embedding of \<^verbatim>\<open>analyzer/risk_analyzer.py\<close> (class \<^verbatim>\<open>BehaviorAnalyzer\<close>) and of
  \<^verbatim>\<open>controller/enforcement.py\<close> (class \<^verbatim>\<open>EnforcementController\<close>).

  Modelling decisions:
  \<^item> Python floats are modelled as \<open>real\<close>: the literals \<^verbatim>\<open>0.25\<close>, \<^verbatim>\<open>20.0\<close>, \<^verbatim>\<open>1e9\<close> are the exact
    rationals they denote, and rounding is not modelled.
  \<^item> The \<^verbatim>\<open>process_data\<close> dictionary is a record of optional fields: \<open>None\<close> is a key that is
    absent (or, for \<^verbatim>\<open>create_time\<close>, present with the value \<^verbatim>\<open>None\<close>), so that every
    \<^verbatim>\<open>.get(key, default)\<close> of the source is a lookup with that default.
  \<^item> Strings are \<open>char list\<close>; \<^verbatim>\<open>lower()\<close> and \<^verbatim>\<open>strip()\<close> are modelled on ASCII.
  \<^item> The coroutines of the controller are awaited one after the other, so they are modelled
    as sequential functions.
  \<^item> The methods of the controller mutate \<^verbatim>\<open>self.execution_log\<close> and call
    \<^verbatim>\<open>subprocess.run\<close>; the model passes the controller and the host explicitly and returns
    both, the host recording every command that was run.
\<close>

subsection \<open>Strings\<close>

definition lower_char :: "char \<Rightarrow> char" where
  "lower_char c =
     (case map_of (zip ''ABCDEFGHIJKLMNOPQRSTUVWXYZ'' ''abcdefghijklmnopqrstuvwxyz'') c of
        Some l \<Rightarrow> l
      | None \<Rightarrow> c)"

definition lower :: "string \<Rightarrow> string" where
  "lower s = map lower_char s"

text \<open>\<^verbatim>\<open>s.startswith(p)\<close>\<close>

fun startswith :: "string \<Rightarrow> string \<Rightarrow> bool" where
  "startswith s [] = True"
| "startswith [] (p # ps) = False"
| "startswith (c # cs) (p # ps) = (c = p \<and> startswith cs ps)"

text \<open>\<^verbatim>\<open>s.endswith(p)\<close>\<close>

definition endswith :: "string \<Rightarrow> string \<Rightarrow> bool" where
  "endswith s p = startswith (rev s) (rev p)"

text \<open>\<^verbatim>\<open>sub in s\<close> on strings: \<open>sub\<close> occurs in \<open>s\<close> as a contiguous run.\<close>

fun str_in :: "string \<Rightarrow> string \<Rightarrow> bool" where
  "str_in sub [] = (sub = [])"
| "str_in sub (c # cs) = (startswith (c # cs) sub \<or> str_in sub cs)"

text \<open>The ASCII characters that \<^verbatim>\<open>str.strip()\<close> removes: tab to carriage return,
  the four separators 28 to 31, and space.\<close>

definition is_space :: "char \<Rightarrow> bool" where
  "is_space c = (c \<in> set [CHR 0x09, CHR 0x0A, CHR 0x0B, CHR 0x0C, CHR 0x0D,
                            CHR 0x1C, CHR 0x1D, CHR 0x1E, CHR 0x1F, CHR '' ''])"

definition strip :: "string \<Rightarrow> string" where
  "strip s = rev (dropWhile is_space (rev (dropWhile is_space s)))"

text \<open>\<^verbatim>\<open>s.split(sep)\<close> for a separator of one character: never the empty list.\<close>

fun split_chr :: "char \<Rightarrow> string \<Rightarrow> string list" where
  "split_chr sep [] = [[]]"
| "split_chr sep (c # cs) =
     (if c = sep then [] # split_chr sep cs
      else (case split_chr sep cs of
              [] \<Rightarrow> [[c]]
            | w # ws \<Rightarrow> (c # w) # ws))"

text \<open>\<^verbatim>\<open>xs[-1]\<close>; it raises IndexError on the empty list, which is \<open>None\<close> here.\<close>

definition last_item :: "'a list \<Rightarrow> 'a option" where
  "last_item xs = (case xs of [] \<Rightarrow> None | _ # _ \<Rightarrow> Some (last xs))"

text \<open>\<^verbatim>\<open>d.get(key, default)\<close> on an optional field.\<close>

definition dict_get :: "'a option \<Rightarrow> 'a \<Rightarrow> 'a" where
  "dict_get field dflt = (case field of None \<Rightarrow> dflt | Some v \<Rightarrow> v)"

subsection \<open>The analyzer's data\<close>

datatype RiskLevel = SAFE | SUSPICIOUS | HIGH_RISK | CRITICAL

text \<open>The value of each member of the enumeration, \<^verbatim>\<open>(min_val, max_val)\<close>.\<close>

fun level_value :: "RiskLevel \<Rightarrow> int \<times> int" where
  "level_value SAFE = (0, 30)"
| "level_value SUSPICIOUS = (31, 60)"
| "level_value HIGH_RISK = (61, 80)"
| "level_value CRITICAL = (81, 100)"

text \<open>Iterating over the enumeration yields its members in the order of declaration.\<close>

definition all_levels :: "RiskLevel list" where
  "all_levels = [SAFE, SUSPICIOUS, HIGH_RISK, CRITICAL]"

record process_data =
  name :: "string option"
  pid :: "int option"
  executable :: "string option"
  command_line :: "string option"
  user_context :: "string option"
  create_time :: "real option"
  mem_percent :: "real option"
  cpu_percent :: "real option"
  num_threads :: "int option"
  connections :: "int option"
  open_files :: "int option"

text \<open>The dictionary with no key at all.\<close>

definition empty_data :: process_data where
  "empty_data = \<lparr>name = None, pid = None, executable = None, command_line = None,
     user_context = None, create_time = None, mem_percent = None, cpu_percent = None,
     num_threads = None, connections = None, open_files = None\<rparr>"

record PermissionProfile =
  app_name :: string
  declared_permissions :: "string list"

text \<open>\<^verbatim>\<open>self.risk_factors\<close>, as \<^verbatim>\<open>__init__\<close> fills it.\<close>

definition risk_factors :: "(string \<times> real) list" where
  "risk_factors =
     [(''permission_abuse'', 25 / 100),
      (''hidden_execution'', 20 / 100),
      (''network_anomalies'', 20 / 100),
      (''persistence_behavior'', 15 / 100),
      (''resource_spikes'', 10 / 100),
      (''masquerading_risk'', 10 / 100)]"

text \<open>\<^verbatim>\<open>self.risk_factors[key]\<close>: \<open>None\<close> is the KeyError of a missing key.\<close>

definition factor_weight :: "string \<Rightarrow> real option" where
  "factor_weight key = map_of risk_factors key"

subsection \<open>The six factors\<close>

definition analyze_permission_abuse :: "process_data \<Rightarrow> PermissionProfile option \<Rightarrow> real" where
  "analyze_permission_abuse pd profile =
     (let score =
        (case profile of
           None \<Rightarrow> 0
         | Some p \<Rightarrow>
             (let conns = dict_get (connections pd) 0;
                  files = dict_get (open_files pd) 0;
                  score1 = (if conns > int (count_list (app_name p) (CHR ''.'')) then 0 + 20 else 0);
                  score2 = (if files > 50 then score1 + 15 else score1)
              in score2))
      in min 100 score)"

definition suspicious_names :: "(string \<times> real) list" where
  "suspicious_names = [(''svch0st'', 50), (''lsasa'', 60), (''csrsa'', 50), (''nvcssa'', 40)]"

definition analyze_hidden_execution :: "process_data \<Rightarrow> real" where
  "analyze_hidden_execution pd =
     (let nm = lower (dict_get (name pd) []);
          score1 = foldl (\<lambda>score (suspicious, severity).
                      if str_in suspicious nm then score + severity else score) 0 suspicious_names;
          score2 = (if strip (dict_get (command_line pd) []) = [] then score1 + 25 else score1);
          threads = dict_get (num_threads pd) 1;
          score3 = (if threads > 100 then score2 + 20 else score2)
      in min 100 score3)"

definition analyze_network_anomalies :: "process_data \<Rightarrow> real" where
  "analyze_network_anomalies pd =
     (let conns = dict_get (connections pd) 0;
          score1 = (if conns > 50 then 40 else if conns > 20 then 20
                    else if conns > 5 then 10 else 0);
          nm = lower (dict_get (name pd) []);
          system_processes = [''svchost'', ''csrss'', ''services''];
          score2 = (if list_ex (\<lambda>sys_proc. str_in sys_proc nm) system_processes
                    then (if conns > 2 then score1 + 30 else score1)
                    else score1)
      in min 100 score2)"

definition analyze_persistence :: "process_data \<Rightarrow> real" where
  "analyze_persistence pd =
     (let ctx = lower (dict_get (user_context pd) []);
          nm = lower (dict_get (name pd) []);
          score1 = (if str_in ''system'' ctx \<and>
                       \<not> list_ex (\<lambda>sys_proc. str_in sys_proc nm) [''svchost'', ''services'', ''lsass'']
                    then 25 else 0);
          score2 = (case create_time pd of
                      None \<Rightarrow> score1
                    | Some t \<Rightarrow> if t \<noteq> 0 \<and> t < 1000000000 then score1 + 15 else score1)
      in min 100 score2)"

definition analyze_resource_usage :: "process_data \<Rightarrow> real" where
  "analyze_resource_usage pd =
     (let cpu = dict_get (cpu_percent pd) 0;
          mem = dict_get (mem_percent pd) 0;
          score1 = (if cpu > 80 then 30 else if cpu > 50 then 15 else 0);
          score2 = (if mem > 50 then score1 + 30 else if mem > 20 then score1 + 15 else score1)
      in min 100 score2)"

definition risky_extensions :: "string list" where
  "risky_extensions = [''.scr'', ''.pif'', ''.bat'', ''.cmd'', ''.vbs'', ''.js'']"

definition analyze_masquerading :: "process_data \<Rightarrow> real" where
  "analyze_masquerading pd =
     (let nm = lower (dict_get (name pd) []);
          exe_path = lower (dict_get (executable pd) []);
          score1 =
            (if exe_path \<noteq> [] \<and> nm \<noteq> [] then
               (let exe_basename =
                      lower (dict_get (last_item (split_chr (CHR ''/'')
                        (dict_get (last_item (split_chr (CHR 0x5C) exe_path)) []))) [])
                in if exe_basename \<noteq> nm \<and> \<not> str_in nm exe_path then 35 else 0)
             else 0);
          score2 = (if list_ex (\<lambda>ext. endswith nm ext) risky_extensions
                    then score1 + 40 else score1)
      in min 100 score2)"

subsection \<open>Score and classification\<close>

text \<open>
  \<^verbatim>\<open>calculate_risk_score\<close>: the six severities, the running total, the clamp, and the
  breakdown in the order the source fills it. \<open>None\<close> is a KeyError of
  \<^verbatim>\<open>self.risk_factors[...]\<close>.
\<close>

definition calculate_risk_score ::
  "process_data \<Rightarrow> PermissionProfile option \<Rightarrow> (real \<times> (string \<times> real) list) option" where
  "calculate_risk_score pd profile = do {
     let total_score = 0;
     let permission_score = analyze_permission_abuse pd profile;
     w1 \<leftarrow> factor_weight ''permission_abuse'';
     let total_score = total_score + permission_score * w1;
     let hidden_score = analyze_hidden_execution pd;
     w2 \<leftarrow> factor_weight ''hidden_execution'';
     let total_score = total_score + hidden_score * w2;
     let network_score = analyze_network_anomalies pd;
     w3 \<leftarrow> factor_weight ''network_anomalies'';
     let total_score = total_score + network_score * w3;
     let persistence_score = analyze_persistence pd;
     w4 \<leftarrow> factor_weight ''persistence_behavior'';
     let total_score = total_score + persistence_score * w4;
     let resource_score = analyze_resource_usage pd;
     w5 \<leftarrow> factor_weight ''resource_spikes'';
     let total_score = total_score + resource_score * w5;
     let masquerade_score = analyze_masquerading pd;
     w6 \<leftarrow> factor_weight ''masquerading_risk'';
     let total_score = total_score + masquerade_score * w6;
     let final_score = min 100 (max 0 total_score);
     Some (final_score,
       [(''permission_abuse'', permission_score),
        (''hidden_execution'', hidden_score),
        (''network_anomalies'', network_score),
        (''persistence_behavior'', persistence_score),
        (''resource_spikes'', resource_score),
        (''masquerading_risk'', masquerade_score)])
   }"

text \<open>\<^verbatim>\<open>get_risk_level\<close>: the first member whose range holds the score, else CRITICAL.\<close>

definition in_range :: "RiskLevel \<Rightarrow> real \<Rightarrow> bool" where
  "in_range level risk_score =
     (case level_value level of
        (min_val, max_val) \<Rightarrow> real_of_int min_val \<le> risk_score \<and> risk_score \<le> real_of_int max_val)"

definition get_risk_level :: "real \<Rightarrow> RiskLevel" where
  "get_risk_level risk_score =
     (case find (\<lambda>level. in_range level risk_score) all_levels of
        Some level \<Rightarrow> level
      | None \<Rightarrow> CRITICAL)"

subsection \<open>Snapshots used below\<close>

text \<open>The snapshot of \<^verbatim>\<open>test_calculate_risk_suspicious_app\<close> (Scenario B of the specification).\<close>

definition scenario_b :: process_data where
  "scenario_b = empty_data\<lparr>name := Some ''svch0st.exe'', pid := Some 5678,
     command_line := Some [], user_context := Some ''System'',
     cpu_percent := Some 85, mem_percent := Some 55,
     connections := Some 75, open_files := Some 100, num_threads := Some 150\<rparr>"

text \<open>The same process when it is idle: no cpu or memory figures.\<close>

definition idle_svch0st :: process_data where
  "idle_svch0st = empty_data\<lparr>name := Some ''svch0st.exe'', pid := Some 5678,
     command_line := Some [], user_context := Some ''System'',
     connections := Some 75, open_files := Some 100, num_threads := Some 150\<rparr>"

text \<open>A snapshot whose creation time is the epoch itself, and one a second later.\<close>

definition epoch_process :: process_data where
  "epoch_process = empty_data\<lparr>name := Some ''init'', pid := Some 1,
     command_line := Some ''/sbin/init'', user_context := Some ''root'',
     create_time := Some 0\<rparr>"

definition old_process :: process_data where
  "old_process = epoch_process\<lparr>create_time := Some 1\<rparr>"

subsection \<open>The controller's data\<close>

datatype EnforcementAction =
  TERMINATE | SUSPEND | BLOCK_NETWORK | REVOKE_PERMISSIONS | QUARANTINE | WHITELIST

text \<open>The value of each member, the string the audit log names the action by.\<close>

fun action_value :: "EnforcementAction \<Rightarrow> string" where
  "action_value TERMINATE = ''terminate''"
| "action_value SUSPEND = ''suspend''"
| "action_value BLOCK_NETWORK = ''block_network''"
| "action_value REVOKE_PERMISSIONS = ''revoke_permissions''"
| "action_value QUARANTINE = ''quarantine''"
| "action_value WHITELIST = ''whitelist''"

text \<open>An entry of \<^verbatim>\<open>self.execution_log\<close>, the dictionary \<^verbatim>\<open>_log_action\<close> builds.\<close>

record log_entry =
  timestamp :: real
  action :: string
  process_id :: "int option"
  reason :: string
  success :: bool
  error :: "string option"

record PolicyRule =
  name :: string
  trigger_risk_score :: real
  action :: EnforcementAction
  reversible :: bool
  requires_approval :: bool
  description :: string

record EnforcementController =
  mode :: string
  system :: string
  execution_log :: "log_entry list"
  policies :: "PolicyRule list"

text \<open>
  The host the controller acts on. A command is the argument vector given to
  \<^verbatim>\<open>subprocess.run\<close>, with the process id it carries (\<open>None\<close> when the snapshot
  has no \<^verbatim>\<open>pid\<close> key, which the source renders with \<^verbatim>\<open>str\<close>):
  \<^verbatim>\<open>taskkill /PID p /F\<close>, \<^verbatim>\<open>kill -9 p\<close>, \<^verbatim>\<open>kill -STOP p\<close>.
  \<^verbatim>\<open>subprocess.run\<close> either completes with an exit status or raises; the host
  records every command it was asked to run.
\<close>

datatype command = Taskkill_F "int option" | Kill_9 "int option" | Kill_STOP "int option"

datatype run_outcome = Completed int | Raised string

record host =
  subprocess_run :: "command \<Rightarrow> run_outcome"
  time_now :: real
  commands_run :: "command list"

definition init_default_policies :: "PolicyRule list" where
  "init_default_policies =
     [\<lparr>name = ''Critical Threat Auto-Terminate'', trigger_risk_score = 85,
       action = TERMINATE, reversible = False, requires_approval = True,
       description = ''Automatically terminate processes flagged as critical threats''\<rparr>,
      \<lparr>name = ''High Risk Quarantine'', trigger_risk_score = 70,
       action = QUARANTINE, reversible = True, requires_approval = False,
       description = ''Suspend and block network for high-risk processes''\<rparr>,
      \<lparr>name = ''Suspicious Alert'', trigger_risk_score = 50,
       action = SUSPEND, reversible = True, requires_approval = False,
       description = ''Suspend suspicious processes pending review''\<rparr>]"

text \<open>\<^verbatim>\<open>EnforcementController(mode)\<close> on a platform whose \<^verbatim>\<open>platform.system()\<close> is \<open>sys\<close>.\<close>

definition new_controller :: "string \<Rightarrow> string \<Rightarrow> EnforcementController" where
  "new_controller m sys =
     \<lparr>mode = m, system = sys, execution_log = [], policies = init_default_policies\<rparr>"

subsection \<open>Enforcement actions\<close>

definition log_action ::
  "EnforcementController \<Rightarrow> host \<Rightarrow> string \<Rightarrow> int option \<Rightarrow> string \<Rightarrow> bool \<Rightarrow> string option
     \<Rightarrow> EnforcementController" where
  "log_action c h act p rsn ok err =
     c\<lparr>execution_log := execution_log c @
        [\<lparr>timestamp = time_now h, log_entry.action = act, process_id = p, reason = rsn,
          success = ok, error = err\<rparr>]\<rparr>"

definition run :: "host \<Rightarrow> command \<Rightarrow> run_outcome \<times> host" where
  "run h cmd = (subprocess_run h cmd, h\<lparr>commands_run := commands_run h @ [cmd]\<rparr>)"

definition terminate_process ::
  "EnforcementController \<Rightarrow> host \<Rightarrow> int option \<Rightarrow> string \<Rightarrow> bool \<times> EnforcementController \<times> host" where
  "terminate_process c h p rsn =
     (case run h (if system c = ''Windows'' then Taskkill_F p else Kill_9 p) of
        (Completed returncode, h') \<Rightarrow>
          (let ok = (returncode = 0)
           in (ok, if ok then log_action c h' ''terminate'' p rsn True None else c, h'))
      | (Raised e, h') \<Rightarrow> (False, log_action c h' ''terminate'' p rsn False (Some e), h'))"

definition suspend_process ::
  "EnforcementController \<Rightarrow> host \<Rightarrow> int option \<Rightarrow> string \<Rightarrow> bool \<times> EnforcementController \<times> host" where
  "suspend_process c h p rsn =
     (if system c = ''Windows'' then (True, log_action c h ''suspend'' p rsn True None, h)
      else
        (case run h (Kill_STOP p) of
           (Completed returncode, h') \<Rightarrow>
             (let ok = (returncode = 0)
              in (ok, if ok then log_action c h' ''suspend'' p rsn True None else c, h'))
         | (Raised e, h') \<Rightarrow> (False, log_action c h' ''suspend'' p rsn False (Some e), h')))"

text \<open>Both branches of \<^verbatim>\<open>_block_network\<close> are placeholders that set \<^verbatim>\<open>success = True\<close>.\<close>

definition block_network ::
  "EnforcementController \<Rightarrow> host \<Rightarrow> int option \<Rightarrow> string \<Rightarrow> bool \<times> EnforcementController \<times> host" where
  "block_network c h p rsn = (True, log_action c h ''block_network'' p rsn True None, h)"

text \<open>
  \<^verbatim>\<open>_quarantine_process\<close> awaits both sub-actions and drops what they return. Each of them
  catches every exception itself, so the handler of \<^verbatim>\<open>_quarantine_process\<close> is never
  entered.
\<close>

definition quarantine_process ::
  "EnforcementController \<Rightarrow> host \<Rightarrow> int option \<Rightarrow> string \<Rightarrow> bool \<times> EnforcementController \<times> host" where
  "quarantine_process c h p rsn =
     (case suspend_process c h p (''Quarantine: '' @ rsn) of
        (suspended, c1, h1) \<Rightarrow>
          (case block_network c1 h1 p (''Quarantine: '' @ rsn) of
             (blocked, c2, h2) \<Rightarrow> (True, log_action c2 h2 ''quarantine'' p rsn True None, h2)))"

definition execute_action ::
  "EnforcementController \<Rightarrow> host \<Rightarrow> int option \<Rightarrow> EnforcementAction \<Rightarrow> string
     \<Rightarrow> bool \<times> EnforcementController \<times> host" where
  "execute_action c h p act rsn =
     (if mode c = ''monitor'' then (False, c, h)
      else if act = TERMINATE then terminate_process c h p rsn
      else if act = SUSPEND then suspend_process c h p rsn
      else if act = BLOCK_NETWORK then block_network c h p rsn
      else if act = QUARANTINE then quarantine_process c h p rsn
      else (False, c, h))"

subsection \<open>Policy matching\<close>

text \<open>
  \<^verbatim>\<open>sorted(self.policies, key=lambda p: p.trigger_risk_score, reverse=True)\<close>: Python's sort is
  stable and \<^verbatim>\<open>reverse=True\<close> keeps the order of rules with equal keys; so does the
  insertion sort \<open>sort_key\<close> on the negated key.
\<close>

definition sorted_policies :: "PolicyRule list \<Rightarrow> PolicyRule list" where
  "sorted_policies ps = sort_key (\<lambda>p. - trigger_risk_score p) ps"

text \<open>The loop of \<^verbatim>\<open>evaluate_and_enforce\<close> that sets \<^verbatim>\<open>applied_policy\<close> and breaks.\<close>

definition applied_policy :: "PolicyRule list \<Rightarrow> real \<Rightarrow> PolicyRule option" where
  "applied_policy ps risk_score =
     find (\<lambda>policy. risk_score \<ge> trigger_risk_score policy) (sorted_policies ps)"

definition evaluate_and_enforce ::
  "EnforcementController \<Rightarrow> host \<Rightarrow> process_data \<Rightarrow> real
     \<Rightarrow> EnforcementAction option \<times> EnforcementController \<times> host" where
  "evaluate_and_enforce c h pd risk_score =
     (case applied_policy (policies c) risk_score of
        None \<Rightarrow> (None, c, h)
      | Some policy \<Rightarrow>
          if mode c = ''monitor'' then (None, c, h)
          else
            (case execute_action c h (pid pd) (PolicyRule.action policy)
                    (name policy @ '': '' @ description policy) of
               (ok, c', h') \<Rightarrow> (if ok then Some (PolicyRule.action policy) else None, c', h')))"

subsection \<open>Hosts used below\<close>

text \<open>A host on which every command exits with status 0, and one on which every command
  exits with status 1 (the process is gone, or the signal is not permitted).\<close>

definition obedient_host :: host where
  "obedient_host = \<lparr>subprocess_run = (\<lambda>cmd. Completed 0), time_now = 1700000000, commands_run = []\<rparr>"

definition refusing_host :: host where
  "refusing_host = \<lparr>subprocess_run = (\<lambda>cmd. Completed 1), time_now = 1700000000, commands_run = []\<rparr>"

text \<open>A table whose first-declared rule has the lowest threshold.\<close>

definition ascending_policies :: "PolicyRule list" where
  "ascending_policies = rev init_default_policies"

section \<open>Properties of the analyzer\<close>

lemmas analyzer_defs =
  calculate_risk_score_def factor_weight_def risk_factors_def analyze_permission_abuse_def
  analyze_hidden_execution_def analyze_network_anomalies_def analyze_persistence_def
  analyze_resource_usage_def analyze_masquerading_def empty_data_def dict_get_def lower_def
  lower_char_def suspicious_names_def strip_def risky_extensions_def endswith_def

lemma factor_weight_simps:
  "factor_weight ''permission_abuse'' = Some (25 / 100)"
  "factor_weight ''hidden_execution'' = Some (20 / 100)"
  "factor_weight ''network_anomalies'' = Some (20 / 100)"
  "factor_weight ''persistence_behavior'' = Some (15 / 100)"
  "factor_weight ''resource_spikes'' = Some (10 / 100)"
  "factor_weight ''masquerading_risk'' = Some (10 / 100)"
  by (simp_all add: factor_weight_def risk_factors_def)

text \<open>No lookup of a weight fails, so the score is always returned.\<close>

lemma calculate_risk_score_eq:
  "calculate_risk_score pd profile =
     Some (min 100 (max 0
             (0 + analyze_permission_abuse pd profile * (25 / 100)
                + analyze_hidden_execution pd * (20 / 100)
                + analyze_network_anomalies pd * (20 / 100)
                + analyze_persistence pd * (15 / 100)
                + analyze_resource_usage pd * (10 / 100)
                + analyze_masquerading pd * (10 / 100))),
           [(''permission_abuse'', analyze_permission_abuse pd profile),
            (''hidden_execution'', analyze_hidden_execution pd),
            (''network_anomalies'', analyze_network_anomalies pd),
            (''persistence_behavior'', analyze_persistence pd),
            (''resource_spikes'', analyze_resource_usage pd),
            (''masquerading_risk'', analyze_masquerading pd)])"
  unfolding calculate_risk_score_def factor_weight_simps Let_def
  by simp

text \<open>
  On whole-number scores the four ranges do partition \<open>[0,100]\<close>: the level returned is
  the only one whose range holds the score.
\<close>

lemma integer_scores_partitioned:
  assumes "0 \<le> n" and "n \<le> 100"
  shows "in_range (get_risk_level (real_of_int n)) (real_of_int n)
     \<and> (\<forall>level. in_range level (real_of_int n) \<longrightarrow> level = get_risk_level (real_of_int n))"
proof -
  have only: "level = l" if "in_range level (real_of_int n)" "in_range l (real_of_int n)"
    for level l
    using that by (cases level; cases l; simp add: in_range_def)
  from assms consider "n \<le> 30" | "31 \<le> n \<and> n \<le> 60" | "61 \<le> n \<and> n \<le> 80" | "81 \<le> n"
    by linarith
  then have "in_range (get_risk_level (real_of_int n)) (real_of_int n)"
    using assms by cases (simp_all add: get_risk_level_def all_levels_def in_range_def)
  with only show ?thesis by blast
qed

text \<open>
  Claim C1. For every score in \<open>[0,100]\<close>, whole or not, the classification is the one level
  whose range holds the score, the four ranges leaving no gap. The code misses the scores
  strictly between two ranges: the snapshot \<open>idle_svch0st\<close> is scored 30.75 by
  \<open>calculate_risk_score\<close>, no range holds 30.75, and \<open>get_risk_level\<close> falls through to
  CRITICAL.
\<close>

theorem gap_score_classified_critical:
  "calculate_risk_score idle_svch0st None =
     Some (123 / 4, [(''permission_abuse'', 0), (''hidden_execution'', 95),
       (''network_anomalies'', 40), (''persistence_behavior'', 25),
       (''resource_spikes'', 0), (''masquerading_risk'', 0)])
   \<and> (0::real) \<le> 123 / 4 \<and> 123 / 4 \<le> (100::real)
   \<and> \<not> list_ex (\<lambda>level. in_range level (123 / 4)) all_levels
   \<and> get_risk_level (123 / 4) = CRITICAL"
  by (simp add: analyzer_defs idle_svch0st_def get_risk_level_def all_levels_def in_range_def)

text \<open>
  Claim C5. For every snapshot, whatever fields it lacks, and every profile, the score is
  returned and equals the sum over the six named factors of weight times severity, clamped
  to \<open>[0,100]\<close>; the weights are 0.25, 0.20, 0.20, 0.15, 0.10, 0.10 and sum to 1; the score
  lies in \<open>[0,100]\<close>.
\<close>

theorem risk_score_clamped_weighted_sum:
  "\<exists>score factors.
     calculate_risk_score pd profile = Some (score, factors)
     \<and> factors =
         [(''permission_abuse'', analyze_permission_abuse pd profile),
          (''hidden_execution'', analyze_hidden_execution pd),
          (''network_anomalies'', analyze_network_anomalies pd),
          (''persistence_behavior'', analyze_persistence pd),
          (''resource_spikes'', analyze_resource_usage pd),
          (''masquerading_risk'', analyze_masquerading pd)]
     \<and> map fst factors = map fst risk_factors
     \<and> score = min 100 (max 0
         (sum_list (map2 (\<lambda>(k, w) (k', severity). w * severity) risk_factors factors)))
     \<and> 0 \<le> score \<and> score \<le> 100
     \<and> map snd risk_factors = [25 / 100, 20 / 100, 20 / 100, 15 / 100, 10 / 100, 10 / 100]
     \<and> sum_list (map snd risk_factors) = 1"
proof -
  let ?fs = "[(''permission_abuse'', analyze_permission_abuse pd profile),
          (''hidden_execution'', analyze_hidden_execution pd),
          (''network_anomalies'', analyze_network_anomalies pd),
          (''persistence_behavior'', analyze_persistence pd),
          (''resource_spikes'', analyze_resource_usage pd),
          (''masquerading_risk'', analyze_masquerading pd)]"
  let ?raw = "sum_list (map2 (\<lambda>(k, w) (k', severity). w * severity) risk_factors ?fs)"
  have raw: "?raw = 0 + analyze_permission_abuse pd profile * (25 / 100)
                + analyze_hidden_execution pd * (20 / 100)
                + analyze_network_anomalies pd * (20 / 100)
                + analyze_persistence pd * (15 / 100)
                + analyze_resource_usage pd * (10 / 100)
                + analyze_masquerading pd * (10 / 100)"
    by (simp add: risk_factors_def)
  have eq: "calculate_risk_score pd profile = Some (min 100 (max 0 ?raw), ?fs)"
    unfolding raw by (rule calculate_risk_score_eq)
  have keys: "map fst ?fs = map fst risk_factors"
    by (simp add: risk_factors_def)
  have lo: "0 \<le> min 100 (max 0 ?raw)" by simp
  have hi: "min 100 (max 0 ?raw) \<le> 100" by simp
  have ws: "map snd risk_factors = [25 / 100, 20 / 100, 20 / 100, 15 / 100, 10 / 100, 10 / 100]"
    by (simp add: risk_factors_def)
  have one: "sum_list (map snd risk_factors) = 1"
    by (simp add: risk_factors_def)
  show ?thesis
    apply (rule exI [of _ "min 100 (max 0 ?raw)"])
    apply (rule exI [of _ ?fs])
    apply (intro conjI)
           apply (rule eq)
          apply (rule refl)
         apply (rule keys)
        apply (rule refl)
       apply (rule lo)
      apply (rule hi)
     apply (rule ws)
    apply (rule one)
    done
qed

text \<open>
  Claim C8. For the snapshot of Scenario B, scored without a profile, the score exceeds 60
  and the level is HIGH_RISK or CRITICAL. The code computes 36.75
  (0.20 * 95 + 0.20 * 40 + 0.15 * 25 + 0.10 * 60) and classifies it SUSPICIOUS.
\<close>

theorem scenario_b_scores_suspicious:
  "calculate_risk_score scenario_b None =
     Some (147 / 4, [(''permission_abuse'', 0), (''hidden_execution'', 95),
       (''network_anomalies'', 40), (''persistence_behavior'', 25),
       (''resource_spikes'', 60), (''masquerading_risk'', 0)])
   \<and> \<not> (147 / 4 > (60::real))
   \<and> get_risk_level (147 / 4) = SUSPICIOUS"
  by (simp add: analyzer_defs scenario_b_def get_risk_level_def all_levels_def in_range_def)

text \<open>
  The source tests \<^verbatim>\<open>create_time and create_time < 1e9\<close>. Every creation time earlier than
  1e9 other than 0, negative ones included, adds 15 to the severity the snapshot has
  without a creation time; a creation time of 0 is falsy and adds nothing.
\<close>

lemma old_timestamp_penalty:
  "create_time pd = Some t \<Longrightarrow> t < 1000000000 \<Longrightarrow>
     analyze_persistence pd =
       analyze_persistence (pd\<lparr>create_time := None\<rparr>) + (if t = 0 then 0 else 15)"
  by (simp add: analyze_persistence_def Let_def)

lemma old_timestamps_are_penalised:
  "analyze_persistence old_process = 15
   \<and> analyze_persistence (epoch_process\<lparr>create_time := Some (- 5)\<rparr>) = 15
   \<and> analyze_persistence (epoch_process\<lparr>create_time := None\<rparr>) = 0"
  by (simp add: analyzer_defs old_process_def epoch_process_def)

text \<open>
  Claim C9. Every snapshot whose creation timestamp is earlier than epoch+1e9, timestamp 0
  included, has the +15 penalty in its persistence severity. The code misses timestamp 0:
  the severity of \<open>epoch_process\<close>, created at 0, is 0, the severity it has without any
  creation time, and not that plus 15.
\<close>

theorem epoch_timestamp_not_penalised:
  "create_time epoch_process = Some 0 \<and> (0::real) < 1000000000
   \<and> analyze_persistence epoch_process = 0
   \<and> analyze_persistence epoch_process \<noteq>
       analyze_persistence (epoch_process\<lparr>create_time := None\<rparr>) + 15"
  by (simp add: analyzer_defs epoch_process_def)

text \<open>
  Claim C10. Without a permission profile the permission-abuse severity is 0 for every
  snapshot, whatever its connection and open-file counts.
\<close>

theorem no_profile_no_permission_abuse: "analyze_permission_abuse pd None = 0"
  by (simp add: analyze_permission_abuse_def)

section \<open>Properties of the controller\<close>

lemmas controller_defs =
  evaluate_and_enforce_def execute_action_def terminate_process_def suspend_process_def
  block_network_def quarantine_process_def run_def log_action_def

lemmas example_defs =
  new_controller_def applied_policy_def sorted_policies_def init_default_policies_def
  obedient_host_def refusing_host_def scenario_b_def empty_data_def

subsection \<open>Policy matching\<close>

lemma find_descending_highest:
  "sorted (map (\<lambda>p. - f p) xs) \<Longrightarrow> find (\<lambda>p. (s::real) \<ge> f p) xs = Some p \<Longrightarrow>
     q \<in> set xs \<Longrightarrow> f q \<le> s \<Longrightarrow> f q \<le> f p"
proof (induction xs)
  case Nil
  then show ?case by simp
next
  case (Cons x xs)
  show ?case
  proof (cases "s \<ge> f x")
    case True
    with Cons.prems have "p = x" by simp
    with Cons.prems show ?thesis by auto
  next
    case False
    with Cons.prems have "q \<in> set xs" "find (\<lambda>p. s \<ge> f p) xs = Some p" "sorted (map (\<lambda>p. - f p) xs)"
      by auto
    with Cons.IH Cons.prems show ?thesis by blast
  qed
qed

lemma set_sorted_policies: "set (sorted_policies ps) = set ps"
  by (simp add: sorted_policies_def)

lemma sorted_sorted_policies:
  "sorted (map (\<lambda>p. - trigger_risk_score p) (sorted_policies ps))"
  by (simp add: sorted_policies_def)

lemma applied_policy_Some:
  assumes "applied_policy ps s = Some p"
  shows "p \<in> set ps" and "trigger_risk_score p \<le> s"
    and "q \<in> set ps \<Longrightarrow> trigger_risk_score q \<le> s \<Longrightarrow> trigger_risk_score q \<le> trigger_risk_score p"
proof -
  from assms have f: "find (\<lambda>policy. s \<ge> trigger_risk_score policy) (sorted_policies ps) = Some p"
    by (simp add: applied_policy_def)
  then obtain i where "i < length (sorted_policies ps)" "sorted_policies ps ! i = p" "trigger_risk_score p \<le> s"
    by (auto simp: find_Some_iff)
  then have "p \<in> set (sorted_policies ps)" by (metis nth_mem)
  then show "p \<in> set ps" by (simp add: set_sorted_policies)
  show "trigger_risk_score p \<le> s" by fact
  show "trigger_risk_score q \<le> trigger_risk_score p" if "q \<in> set ps" "trigger_risk_score q \<le> s"
    using find_descending_highest [OF sorted_sorted_policies f, of q] that
    by (simp add: set_sorted_policies)
qed

lemma applied_policy_None:
  "applied_policy ps s = None \<longleftrightarrow> (\<forall>q\<in>set ps. s < trigger_risk_score q)"
  by (auto simp: applied_policy_def find_None_iff set_sorted_policies not_le)

text \<open>Rules of equal threshold keep their order of declaration, as in Python's stable sort.\<close>

lemma sorted_policies_stable:
  "filter (\<lambda>p. trigger_risk_score p = k) (sorted_policies ps) =
     filter (\<lambda>p. trigger_risk_score p = k) ps"
proof -
  have "filter (\<lambda>p. - trigger_risk_score p = - k) (sorted_policies ps) =
          filter (\<lambda>p. - trigger_risk_score p = - k) ps"
    unfolding sorted_policies_def by (rule sort_key_stable)
  then show ?thesis by simp
qed

lemma default_policies_sorted:
  "sorted_policies init_default_policies = init_default_policies"
  by (simp add: sorted_policies_def init_default_policies_def)

text \<open>
  Claim C4. For every score and every rule table, the rule that applies is one of the
  table whose threshold is at most the score and is the highest such threshold, whatever
  the order of declaration; when the score is below every threshold no rule applies and
  \<open>evaluate_and_enforce\<close> returns none and changes nothing. When a rule applies,
  \<open>evaluate_and_enforce\<close> outside Monitor mode executes the action of that very rule on the
  snapshot's process, with that rule's name and description as the reason, and returns
  that action exactly when the execution succeeds; an action, when one is returned, is
  the action of the rule that applies. Against the default table, 90 matches
  "Critical Threat Auto-Terminate" (Terminate), 55 matches "Suspicious Alert" (Suspend),
  and 40 matches no rule; an enforcing controller on a host that obeys terminates at 90
  (running \<^verbatim>\<open>kill -9\<close>), suspends at 55 (running \<^verbatim>\<open>kill -STOP\<close>) and does nothing at 40.
\<close>

theorem highest_threshold_rule_applies:
  "(case applied_policy ps s of
      None \<Rightarrow> (\<forall>q\<in>set ps. s < trigger_risk_score q)
    | Some p \<Rightarrow> p \<in> set ps \<and> trigger_risk_score p \<le> s
        \<and> (\<forall>q\<in>set ps. trigger_risk_score q \<le> s \<longrightarrow> trigger_risk_score q \<le> trigger_risk_score p))
   \<and> ((\<forall>q\<in>set ps. s < trigger_risk_score q) \<longrightarrow>
        applied_policy ps s = None
        \<and> evaluate_and_enforce (c\<lparr>policies := ps\<rparr>) h pd s = (None, c\<lparr>policies := ps\<rparr>, h))
   \<and> (\<forall>a. fst (evaluate_and_enforce (c\<lparr>policies := ps\<rparr>) h pd s) = Some a \<longrightarrow>
        (\<exists>p. applied_policy ps s = Some p \<and> PolicyRule.action p = a))
   \<and> (\<forall>p. applied_policy ps s = Some p \<and> mode c \<noteq> ''monitor'' \<longrightarrow>
        evaluate_and_enforce (c\<lparr>policies := ps\<rparr>) h pd s =
          (case execute_action (c\<lparr>policies := ps\<rparr>) h (pid pd) (PolicyRule.action p)
                  (name p @ '': '' @ description p) of
             (ok, c', h') \<Rightarrow> (if ok then Some (PolicyRule.action p) else None, c', h')))
   \<and> map_option (\<lambda>p. (name p, PolicyRule.action p)) (applied_policy init_default_policies 90)
        = Some (''Critical Threat Auto-Terminate'', TERMINATE)
   \<and> map_option (\<lambda>p. (name p, PolicyRule.action p)) (applied_policy init_default_policies 55)
        = Some (''Suspicious Alert'', SUSPEND)
   \<and> applied_policy init_default_policies 40 = None
   \<and> (case evaluate_and_enforce (new_controller ''enforce'' ''Linux'') obedient_host scenario_b 90 of
         (r, c', h') \<Rightarrow> (r, map log_entry.action (execution_log c'), commands_run h'))
        = (Some TERMINATE, [''terminate''], [Kill_9 (Some 5678)])
   \<and> (case evaluate_and_enforce (new_controller ''enforce'' ''Linux'') obedient_host scenario_b 55 of
         (r, c', h') \<Rightarrow> (r, map log_entry.action (execution_log c'), commands_run h'))
        = (Some SUSPEND, [''suspend''], [Kill_STOP (Some 5678)])
   \<and> (case evaluate_and_enforce (new_controller ''enforce'' ''Linux'') obedient_host scenario_b 40 of
         (r, c', h') \<Rightarrow> (r, map log_entry.action (execution_log c'), commands_run h'))
        = (None, [], [])"
proof (intro conjI)
  show "case applied_policy ps s of
      None \<Rightarrow> (\<forall>q\<in>set ps. s < trigger_risk_score q)
    | Some p \<Rightarrow> p \<in> set ps \<and> trigger_risk_score p \<le> s
        \<and> (\<forall>q\<in>set ps. trigger_risk_score q \<le> s \<longrightarrow> trigger_risk_score q \<le> trigger_risk_score p)"
  proof (cases "applied_policy ps s")
    case None
    then have "\<forall>q\<in>set ps. s < trigger_risk_score q"
      by (simp add: applied_policy_None)
    with None show ?thesis by simp
  next
    case (Some p)
    from applied_policy_Some [OF Some] Some show ?thesis by simp
  qed
  show "(\<forall>q\<in>set ps. s < trigger_risk_score q) \<longrightarrow>
        applied_policy ps s = None
        \<and> evaluate_and_enforce (c\<lparr>policies := ps\<rparr>) h pd s = (None, c\<lparr>policies := ps\<rparr>, h)"
    by (simp add: applied_policy_None [symmetric] evaluate_and_enforce_def)
  show "\<forall>a. fst (evaluate_and_enforce (c\<lparr>policies := ps\<rparr>) h pd s) = Some a \<longrightarrow>
        (\<exists>p. applied_policy ps s = Some p \<and> PolicyRule.action p = a)"
    by (auto simp: evaluate_and_enforce_def split: option.splits if_splits prod.splits)
  show "\<forall>p. applied_policy ps s = Some p \<and> mode c \<noteq> ''monitor'' \<longrightarrow>
        evaluate_and_enforce (c\<lparr>policies := ps\<rparr>) h pd s =
          (case execute_action (c\<lparr>policies := ps\<rparr>) h (pid pd) (PolicyRule.action p)
                  (name p @ '': '' @ description p) of
             (ok, c', h') \<Rightarrow> (if ok then Some (PolicyRule.action p) else None, c', h'))"
    by (simp add: evaluate_and_enforce_def)
  show "map_option (\<lambda>p. (name p, PolicyRule.action p)) (applied_policy init_default_policies 90)
        = Some (''Critical Threat Auto-Terminate'', TERMINATE)"
    by (simp add: applied_policy_def default_policies_sorted) (simp add: init_default_policies_def)
  show "map_option (\<lambda>p. (name p, PolicyRule.action p)) (applied_policy init_default_policies 55)
        = Some (''Suspicious Alert'', SUSPEND)"
    by (simp add: applied_policy_def default_policies_sorted) (simp add: init_default_policies_def)
  show "applied_policy init_default_policies 40 = None"
    by (simp add: applied_policy_def default_policies_sorted) (simp add: init_default_policies_def)
  show "(case evaluate_and_enforce (new_controller ''enforce'' ''Linux'') obedient_host scenario_b 90 of
         (r, c', h') \<Rightarrow> (r, map log_entry.action (execution_log c'), commands_run h'))
        = (Some TERMINATE, [''terminate''], [Kill_9 (Some 5678)])"
    by (simp add: example_defs controller_defs)
  show "(case evaluate_and_enforce (new_controller ''enforce'' ''Linux'') obedient_host scenario_b 55 of
         (r, c', h') \<Rightarrow> (r, map log_entry.action (execution_log c'), commands_run h'))
        = (Some SUSPEND, [''suspend''], [Kill_STOP (Some 5678)])"
    by (simp add: example_defs controller_defs)
  show "(case evaluate_and_enforce (new_controller ''enforce'' ''Linux'') obedient_host scenario_b 40 of
         (r, c', h') \<Rightarrow> (r, map log_entry.action (execution_log c'), commands_run h'))
        = (None, [], [])"
    by (simp add: example_defs controller_defs)
qed

text \<open>
  In a table declared in ascending order the rule that applies to 90 is the last
  declared, not the first-declared rule that matches, and an enforcing controller with
  that table terminates the process: it runs \<^verbatim>\<open>kill -9\<close>, logs the termination under the
  reason of the critical rule and returns Terminate. At 40 it does nothing.
\<close>

theorem highest_threshold_rule_applies_witness:
  "(\<exists>p. applied_policy ascending_policies 90 = Some p
        \<and> p \<in> set ascending_policies
        \<and> name p = ''Critical Threat Auto-Terminate''
        \<and> trigger_risk_score p \<le> 90
        \<and> list_all (\<lambda>q. trigger_risk_score q \<le> 90 \<and> trigger_risk_score q \<le> trigger_risk_score p) ascending_policies)
   \<and> name (hd ascending_policies) = ''Suspicious Alert''
   \<and> trigger_risk_score (hd ascending_policies) \<le> 90
   \<and> mode (new_controller ''enforce'' ''Linux'') \<noteq> ''monitor''
   \<and> evaluate_and_enforce (new_controller ''enforce'' ''Linux''\<lparr>policies := ascending_policies\<rparr>)
        obedient_host scenario_b 90 =
       (Some TERMINATE,
        new_controller ''enforce'' ''Linux''
          \<lparr>execution_log :=
             [\<lparr>timestamp = 1700000000, log_entry.action = ''terminate'', process_id = Some 5678,
               reason = ''Critical Threat Auto-Terminate: Automatically terminate processes flagged as critical threats'',
               success = True, error = None\<rparr>],
           policies := ascending_policies\<rparr>,
        obedient_host\<lparr>commands_run := [Kill_9 (Some 5678)]\<rparr>)
   \<and> list_all (\<lambda>q. 40 < trigger_risk_score q) init_default_policies
   \<and> evaluate_and_enforce (new_controller ''enforce'' ''Linux'') obedient_host scenario_b 40
       = (None, new_controller ''enforce'' ''Linux'', obedient_host)"
  using highest_threshold_rule_applies [of ascending_policies 90 "new_controller ''enforce'' ''Linux''" obedient_host scenario_b]
    highest_threshold_rule_applies [of init_default_policies 40 "new_controller ''enforce'' ''Linux''" obedient_host scenario_b]
  by (simp add: example_defs controller_defs ascending_policies_def)

subsection \<open>Enforcement and the audit log\<close>

text \<open>
  Claim C2. In Monitor mode \<open>evaluate_and_enforce\<close> returns none and leaves the controller
  and the host as they were, for every snapshot and every score: no command is run and no
  entry is logged. \<open>execute_action\<close> itself returns False there without acting.
\<close>

theorem monitor_mode_never_acts:
  "mode c = ''monitor'' \<Longrightarrow>
     evaluate_and_enforce c h pd s = (None, c, h)
     \<and> execute_action c h p a r = (False, c, h)"
  by (simp add: evaluate_and_enforce_def execute_action_def split: option.splits)

theorem monitor_mode_never_acts_witness:
  "mode (new_controller ''monitor'' ''Linux'') = ''monitor''
   \<and> applied_policy (policies (new_controller ''monitor'' ''Linux'')) 90 \<noteq> None
   \<and> evaluate_and_enforce (new_controller ''monitor'' ''Linux'') refusing_host scenario_b 90
       = (None, new_controller ''monitor'' ''Linux'', refusing_host)
   \<and> commands_run refusing_host = []
   \<and> execute_action (new_controller ''monitor'' ''Linux'') refusing_host (Some 1234) TERMINATE
        ''Test termination'' = (False, new_controller ''monitor'' ''Linux'', refusing_host)"
  using monitor_mode_never_acts [of "new_controller ''monitor'' ''Linux''" refusing_host scenario_b 90
          "Some 1234" TERMINATE "''Test termination''"]
  by (simp add: new_controller_def applied_policy_def sorted_policies_def init_default_policies_def
        refusing_host_def)

lemma terminate_process_log:
  assumes "terminate_process c h p r = (ok, c', h')"
    and "\<And>cmd rc. subprocess_run h cmd = Completed rc \<Longrightarrow> rc = 0"
  shows "\<exists>e. execution_log c' = execution_log c @ [e] \<and> log_entry.action e = ''terminate''
           \<and> process_id e = p \<and> success e = ok \<and> (success e \<longleftrightarrow> error e = None)"
proof (cases "subprocess_run h (if system c = ''Windows'' then Taskkill_F p else Kill_9 p)")
  case (Completed rc)
  with assms(2) have "rc = 0" by blast
  with Completed assms(1) show ?thesis
    by (auto simp: terminate_process_def run_def log_action_def)
next
  case (Raised e)
  with assms(1) show ?thesis
    by (auto simp: terminate_process_def run_def log_action_def)
qed

lemma suspend_process_log:
  assumes "suspend_process c h p r = (ok, c', h')"
    and "\<And>cmd rc. subprocess_run h cmd = Completed rc \<Longrightarrow> rc = 0"
  shows "\<exists>e. execution_log c' = execution_log c @ [e] \<and> log_entry.action e = ''suspend''
           \<and> process_id e = p \<and> success e = ok \<and> (success e \<longleftrightarrow> error e = None)"
proof (cases "system c = ''Windows''")
  case True
  with assms(1) show ?thesis
    by (auto simp: suspend_process_def log_action_def)
next
  case False
  show ?thesis
  proof (cases "subprocess_run h (Kill_STOP p)")
    case (Completed rc)
    with assms(2) have "rc = 0" by blast
    with Completed False assms(1) show ?thesis
      by (auto simp: suspend_process_def run_def log_action_def)
  next
    case (Raised e)
    with False assms(1) show ?thesis
      by (auto simp: suspend_process_def run_def log_action_def)
  qed
qed

lemma block_network_log:
  assumes "block_network c h p r = (ok, c', h')"
  shows "\<exists>e. execution_log c' = execution_log c @ [e] \<and> log_entry.action e = ''block_network''
           \<and> process_id e = p \<and> success e = ok \<and> (success e \<longleftrightarrow> error e = None)"
  using assms by (auto simp: block_network_def log_action_def)

text \<open>What a sub-action of the composite leaves in the log: nothing, or one entry of its own.\<close>

lemma suspend_process_log_any:
  assumes "suspend_process c h p r = (ok, c', h')"
  shows "\<exists>es. execution_log c' = execution_log c @ es
           \<and> list_all (\<lambda>e. log_entry.action e = ''suspend'') es"
proof (cases "system c = ''Windows''")
  case True
  with assms show ?thesis
    by (auto simp: suspend_process_def log_action_def)
next
  case False
  with assms show ?thesis
    by (cases "subprocess_run h (Kill_STOP p)")
       (auto simp: suspend_process_def run_def log_action_def Let_def split: if_splits)
qed

lemma quarantine_process_log:
  assumes "quarantine_process c h p r = (ok, c', h')"
  shows "\<exists>subs q. execution_log c' = execution_log c @ subs @ [q]
           \<and> log_entry.action q = ''quarantine'' \<and> process_id q = p
           \<and> list_all (\<lambda>e. log_entry.action e \<noteq> ''quarantine'') subs"
proof -
  obtain s1 c1 h1 where s: "suspend_process c h p (''Quarantine: '' @ r) = (s1, c1, h1)"
    by (metis prod_cases3)
  from suspend_process_log_any [OF s] obtain es where
    es: "execution_log c1 = execution_log c @ es" "list_all (\<lambda>e. log_entry.action e = ''suspend'') es"
    by blast
  let ?b = "\<lparr>timestamp = time_now h1, log_entry.action = ''block_network'', process_id = p,
             reason = ''Quarantine: '' @ r, success = True, error = None\<rparr>"
  let ?q = "\<lparr>timestamp = time_now h1, log_entry.action = ''quarantine'', process_id = p,
             reason = r, success = True, error = None\<rparr>"
  from assms s es(1) have log: "execution_log c' = execution_log c @ (es @ [?b]) @ [?q]"
    by (auto simp: quarantine_process_def block_network_def log_action_def)
  from es(2) have "list_all (\<lambda>e. log_entry.action e \<noteq> ''quarantine'') (es @ [?b])"
    by (induction es) auto
  with log show ?thesis
    by (intro exI [of _ "es @ [?b]"] exI [of _ ?q]) simp
qed

text \<open>
  Claim C3, as the code has it. Let a rule match the score. In Monitor mode no entry is
  appended to the execution log. Outside Monitor mode, when the rule's action is
  Terminate, Suspend or BlockNetwork and no command exits with a status other than 0 (it
  exits with 0 or raises), exactly one entry is appended: it names the action and the
  process, its success flag says whether the action was returned, and it carries an error
  exactly when the flag is False. When the action is Quarantine, the entries appended end
  with exactly one entry of the composite, after the entries of its sub-actions.
\<close>

theorem audit_record_of_enforced_action:
  assumes "applied_policy (policies c) s = Some policy"
    and "evaluate_and_enforce c h pd s = (r, c', h')"
  shows "(mode c = ''monitor'' \<longrightarrow> execution_log c' = execution_log c)
    \<and> (mode c \<noteq> ''monitor''
         \<and> PolicyRule.action policy \<in> {TERMINATE, SUSPEND, BLOCK_NETWORK}
         \<and> (\<forall>cmd rc. subprocess_run h cmd = Completed rc \<longrightarrow> rc = 0) \<longrightarrow>
        (\<exists>e. execution_log c' = execution_log c @ [e]
           \<and> log_entry.action e = action_value (PolicyRule.action policy)
           \<and> process_id e = pid pd
           \<and> success e = (r = Some (PolicyRule.action policy))
           \<and> (success e \<longleftrightarrow> error e = None)))
    \<and> (mode c \<noteq> ''monitor'' \<and> PolicyRule.action policy = QUARANTINE \<longrightarrow>
        (\<exists>subs q. execution_log c' = execution_log c @ subs @ [q]
           \<and> log_entry.action q = ''quarantine'' \<and> process_id q = pid pd
           \<and> list_all (\<lambda>e. log_entry.action e \<noteq> ''quarantine'') subs))"
proof (intro conjI impI)
  assume "mode c = ''monitor''"
  with assms show "execution_log c' = execution_log c"
    by (simp add: evaluate_and_enforce_def)
next
  let ?rsn = "name policy @ '': '' @ description policy"
  let ?a = "PolicyRule.action policy"
  assume a: "mode c \<noteq> ''monitor'' \<and> ?a \<in> {TERMINATE, SUSPEND, BLOCK_NETWORK}
     \<and> (\<forall>cmd rc. subprocess_run h cmd = Completed rc \<longrightarrow> rc = 0)"
  then have quiet: "\<And>cmd rc. subprocess_run h cmd = Completed rc \<Longrightarrow> rc = 0" by blast
  obtain ok where ex: "execute_action c h (pid pd) ?a ?rsn = (ok, c', h')"
    and r: "r = (if ok then Some ?a else None)"
    using assms a by (auto simp: evaluate_and_enforce_def split: prod.splits)
  from r have rok: "(r = Some ?a) = ok" by simp
  from a consider "?a = TERMINATE" | "?a = SUSPEND" | "?a = BLOCK_NETWORK" by blast
  then show "\<exists>e. execution_log c' = execution_log c @ [e]
           \<and> log_entry.action e = action_value ?a
           \<and> process_id e = pid pd
           \<and> success e = (r = Some ?a)
           \<and> (success e \<longleftrightarrow> error e = None)"
  proof cases
    case 1
    with ex a have "terminate_process c h (pid pd) ?rsn = (ok, c', h')"
      by (simp add: execute_action_def)
    from terminate_process_log [OF this quiet] 1 rok show ?thesis by simp
  next
    case 2
    with ex a have "suspend_process c h (pid pd) ?rsn = (ok, c', h')"
      by (simp add: execute_action_def)
    from suspend_process_log [OF this quiet] 2 rok show ?thesis by simp
  next
    case 3
    with ex a have "block_network c h (pid pd) ?rsn = (ok, c', h')"
      by (simp add: execute_action_def)
    from block_network_log [OF this] 3 rok show ?thesis by simp
  qed
next
  let ?rsn = "name policy @ '': '' @ description policy"
  assume a: "mode c \<noteq> ''monitor'' \<and> PolicyRule.action policy = QUARANTINE"
  obtain ok where "execute_action c h (pid pd) QUARANTINE ?rsn = (ok, c', h')"
    using assms a by (auto simp: evaluate_and_enforce_def split: prod.splits)
  with a have "quarantine_process c h (pid pd) ?rsn = (ok, c', h')"
    by (simp add: execute_action_def)
  from quarantine_process_log [OF this]
  show "\<exists>subs q. execution_log c' = execution_log c @ subs @ [q]
           \<and> log_entry.action q = ''quarantine'' \<and> process_id q = pid pd
           \<and> list_all (\<lambda>e. log_entry.action e \<noteq> ''quarantine'') subs" .
qed

theorem audit_record_of_enforced_action_witness:
  "applied_policy (policies (new_controller ''enforce'' ''Linux'')) 90 =
     Some (hd init_default_policies)
   \<and> evaluate_and_enforce (new_controller ''enforce'' ''Linux'') obedient_host scenario_b 90 =
       (Some TERMINATE,
        new_controller ''enforce'' ''Linux''
          \<lparr>execution_log :=
             [\<lparr>timestamp = 1700000000, log_entry.action = ''terminate'', process_id = Some 5678,
               reason = ''Critical Threat Auto-Terminate: Automatically terminate processes flagged as critical threats'',
               success = True, error = None\<rparr>]\<rparr>,
        obedient_host\<lparr>commands_run := [Kill_9 (Some 5678)]\<rparr>)
   \<and> mode (new_controller ''enforce'' ''Linux'') \<noteq> ''monitor''
   \<and> PolicyRule.action (hd init_default_policies) = TERMINATE
   \<and> subprocess_run obedient_host = (\<lambda>cmd. Completed 0)
   \<and> (\<exists>e. execution_log (fst (snd (evaluate_and_enforce (new_controller ''enforce'' ''Linux'')
               obedient_host scenario_b 90))) = execution_log (new_controller ''enforce'' ''Linux'') @ [e]
          \<and> log_entry.action e = ''terminate'' \<and> success e)"
  using audit_record_of_enforced_action [of "new_controller ''enforce'' ''Linux''" 90
          "hd init_default_policies" obedient_host scenario_b "Some TERMINATE"
          "new_controller ''enforce'' ''Linux''
          \<lparr>execution_log :=
             [\<lparr>timestamp = 1700000000, log_entry.action = ''terminate'', process_id = Some 5678,
               reason = ''Critical Threat Auto-Terminate: Automatically terminate processes flagged as critical threats'',
               success = True, error = None\<rparr>]\<rparr>"
          "obedient_host\<lparr>commands_run := [Kill_9 (Some 5678)]\<rparr>"]
  by (simp add: example_defs controller_defs)

text \<open>
  Claim C3 as stated fails in Monitor mode: the default table matches a score of 90, and
  the execution log is as empty after the call as before.
\<close>

theorem monitor_mode_appends_no_record:
  "applied_policy (policies (new_controller ''monitor'' ''Linux'')) 90 \<noteq> None
   \<and> execution_log (fst (snd (evaluate_and_enforce (new_controller ''monitor'' ''Linux'')
        obedient_host scenario_b 90))) = []
   \<and> length (execution_log (fst (snd (evaluate_and_enforce (new_controller ''monitor'' ''Linux'')
        obedient_host scenario_b 90))))
       \<noteq> length (execution_log (new_controller ''monitor'' ''Linux'')) + 1"
  by (simp add: example_defs controller_defs)

text \<open>
  Claim C6. The success flag of a quarantine entry is the conjunction of the outcomes of
  Suspend and BlockNetwork. The code drops both outcomes and logs True: on a host where
  \<^verbatim>\<open>kill -STOP\<close> exits with status 1 the suspension fails (and leaves no entry), yet the
  quarantine entry says success and \<open>evaluate_and_enforce\<close> returns Quarantine.
\<close>

theorem quarantine_records_success_after_failed_suspend:
  "fst (suspend_process (new_controller ''enforce'' ''Linux'') refusing_host (Some 5678)
         (''Quarantine: '' @ ''High Risk Quarantine: Suspend and block network for high-risk processes''))
     = False
   \<and> evaluate_and_enforce (new_controller ''enforce'' ''Linux'') refusing_host scenario_b 75 =
       (Some QUARANTINE,
        new_controller ''enforce'' ''Linux''
          \<lparr>execution_log :=
             [\<lparr>timestamp = 1700000000, log_entry.action = ''block_network'', process_id = Some 5678,
               reason = ''Quarantine: High Risk Quarantine: Suspend and block network for high-risk processes'',
               success = True, error = None\<rparr>,
              \<lparr>timestamp = 1700000000, log_entry.action = ''quarantine'', process_id = Some 5678,
               reason = ''High Risk Quarantine: Suspend and block network for high-risk processes'',
               success = True, error = None\<rparr>]\<rparr>,
        refusing_host\<lparr>commands_run := [Kill_STOP (Some 5678)]\<rparr>)"
  by (simp add: example_defs controller_defs)

text \<open>
  Claim C7. A Quarantine executed outside Monitor mode attempts both sub-actions, whatever
  the suspension does: the entry of BlockNetwork is in the log afterwards, and the
  suspension was attempted (its command was run; on Windows, where it is a placeholder,
  its entry is in the log).
\<close>

theorem quarantine_attempts_both:
  assumes "mode c \<noteq> ''monitor''"
    and "execute_action c h p QUARANTINE r = (ok, c', h')"
  shows "\<lparr>timestamp = time_now h, log_entry.action = ''block_network'', process_id = p,
           reason = ''Quarantine: '' @ r, success = True, error = None\<rparr> \<in> set (execution_log c')
    \<and> (if system c = ''Windows''
        then \<lparr>timestamp = time_now h, log_entry.action = ''suspend'', process_id = p,
               reason = ''Quarantine: '' @ r, success = True, error = None\<rparr> \<in> set (execution_log c')
        else Kill_STOP p \<in> set (commands_run h'))"
proof (cases "system c = ''Windows''")
  case True
  with assms show ?thesis
    by (auto simp: controller_defs)
next
  case False
  with assms show ?thesis
    by (cases "subprocess_run h (Kill_STOP p)")
       (auto simp: controller_defs Let_def split: if_splits)
qed

text \<open>On a host where the suspension fails, the network is blocked all the same.\<close>

theorem quarantine_attempts_both_witness:
  "mode (new_controller ''enforce'' ''Linux'') \<noteq> ''monitor''
   \<and> fst (suspend_process (new_controller ''enforce'' ''Linux'') refusing_host (Some 4242)
            (''Quarantine: '' @ ''manual'')) = False
   \<and> \<lparr>timestamp = 1700000000, log_entry.action = ''block_network'', process_id = Some 4242,
        reason = ''Quarantine: manual'', success = True, error = None\<rparr>
       \<in> set (execution_log (fst (snd (execute_action (new_controller ''enforce'' ''Linux'')
                 refusing_host (Some 4242) QUARANTINE ''manual''))))
   \<and> Kill_STOP (Some 4242)
       \<in> set (commands_run (snd (snd (execute_action (new_controller ''enforce'' ''Linux'')
                 refusing_host (Some 4242) QUARANTINE ''manual''))))"
  using quarantine_attempts_both [of "new_controller ''enforce'' ''Linux''" refusing_host
          "Some 4242" "''manual''"
          "fst (execute_action (new_controller ''enforce'' ''Linux'') refusing_host (Some 4242) QUARANTINE ''manual'')"
          "fst (snd (execute_action (new_controller ''enforce'' ''Linux'') refusing_host (Some 4242) QUARANTINE ''manual''))"
          "snd (snd (execute_action (new_controller ''enforce'' ''Linux'') refusing_host (Some 4242) QUARANTINE ''manual''))"]
  by (simp add: example_defs controller_defs)

end
